theory Spec2Isabelle
  imports Complex_Main
begin

section \<open>Data model of app.py\<close>

text \<open>
  JSON values, as far as the service builds or receives them. A Python dict is an
  association list in insertion order.
\<close>

datatype json =
    JNull
  | JInt int
  | JStr string
  | JList "json list"
  | JObj "(string \<times> json) list"

type_synonym pydict = "(string \<times> json) list"

text \<open>
  The pydantic model \<^verbatim>\<open>LessonInput\<close>. Python's integers are unbounded, so the two ids
  are HOL integers. The field \<^verbatim>\<open>type\<close> is an unrestricted \<^verbatim>\<open>str\<close>; the handler checks it.
\<close>

record LessonInput =
  course_id :: int
  lesson_id :: int
  lesson_title :: string
  lesson_content :: string
  type :: string

text \<open>
  The module globals read from the environment. \<^verbatim>\<open>os.getenv\<close> returns \<^verbatim>\<open>None\<close> for a
  variable that is not set.
\<close>

record config =
  API_KEY :: "string option"
  LARAVEL_API_URL :: "string option"

text \<open>
  Exceptions. Every value of this type is an instance of Python's \<^verbatim>\<open>Exception\<close>;
  \<^verbatim>\<open>HTTPError\<close> stands for \<^verbatim>\<open>httpx.HTTPError\<close> and its subclasses (transport errors and
  \<^verbatim>\<open>HTTPStatusError\<close>). Each carries the text that \<^verbatim>\<open>str(e)\<close> gives.
\<close>

datatype exn =
    HTTPError string
  | ValueError string
  | OtherException string

fun is_HTTPError :: "exn \<Rightarrow> bool" where
  "is_HTTPError (HTTPError m) = True"
| "is_HTTPError (ValueError m) = False"
| "is_HTTPError (OtherException m) = False"

fun str_exn :: "exn \<Rightarrow> string" where
  "str_exn (HTTPError m) = m"
| "str_exn (ValueError m) = m"
| "str_exn (OtherException m) = m"

text \<open>
  \<^verbatim>\<open>fastapi.HTTPException(status_code=..., detail=...)\<close> and the HTTP response a client sees.
\<close>

datatype HTTPException = HTTPException (status_code: nat) (detail: string)

record response =
  status :: nat
  body :: json

subsection \<open>Observable effects\<close>

text \<open>
  The log lines of the module, one constructor for each f-string with the values it
  interpolates, and the effects the background task has on the world: log records,
  the \<^verbatim>\<open>print\<close> of the payload, the calls of \<^verbatim>\<open>client.post\<close> with their URL, headers and
  JSON body, and the calls of \<^verbatim>\<open>asyncio.sleep\<close> with their duration in seconds.
\<close>

datatype level = INFO | WARNING | ERROR

datatype log_msg =
    Sent_to_laravel
  | Attempt_failed int string
  | All_retries_failed "json option"
  | Chunking_failed int string
  | Lesson_sent int
  | Final_failure int string

datatype event =
    Log level log_msg
  | Print pydict
  | PostCall "string option" "(string \<times> string option) list" pydict
  | Sleep real

fun is_post :: "event \<Rightarrow> bool" where
  "is_post (PostCall u h p) = True"
| "is_post (Log l m) = False"
| "is_post (Print p) = False"
| "is_post (Sleep d) = False"

fun sleeps_of :: "event list \<Rightarrow> real list" where
  "sleeps_of [] = []"
| "sleeps_of (Sleep d # es) = d # sleeps_of es"
| "sleeps_of (Log l m # es) = sleeps_of es"
| "sleeps_of (Print p # es) = sleeps_of es"
| "sleeps_of (PostCall u h p # es) = sleeps_of es"

definition posts_of :: "event list \<Rightarrow> event list" where
  "posts_of es = filter is_post es"

subsection \<open>The environment: delivery target and chunker\<close>

text \<open>
  What one pass through the \<^verbatim>\<open>try\<close> body of the retry loop meets, in the order of its
  statements: \<^verbatim>\<open>client.post\<close> raises; or a response arrives and \<^verbatim>\<open>raise_for_status\<close>
  raises an \<^verbatim>\<open>httpx.HTTPStatusError\<close>; or the status is fine and \<^verbatim>\<open>response.json()\<close>
  either raises or returns the decoded body. The delivery target is a function from the
  0-based attempt number to this outcome.
\<close>

datatype attempt_result =
    PostRaises exn
  | StatusRaises string
  | JsonRaises exn
  | JsonReturns json

text \<open>
  An attempt that fails the way the retry loop handles: the POST raises an
  \<^verbatim>\<open>httpx.HTTPError\<close>, or the response status is an error.
\<close>

fun http_failure :: "attempt_result \<Rightarrow> bool" where
  "http_failure (PostRaises e) = is_HTTPError e"
| "http_failure (StatusRaises m) = True"
| "http_failure (JsonRaises e) = False"
| "http_failure (JsonReturns j) = False"

fun failure_exn :: "attempt_result \<Rightarrow> exn" where
  "failure_exn (PostRaises e) = e"
| "failure_exn (StatusRaises m) = HTTPError m"
| "failure_exn (JsonRaises e) = e"
| "failure_exn (JsonReturns j) = OtherException []"

text \<open>
  The chunk objects of the third-party chunker; the service reads their \<^verbatim>\<open>text\<close> only. The
  chunker itself (\<^verbatim>\<open>chonkie.RecursiveChunker\<close> with the pretrained tokenizer) is a parameter
  of the model: a function from the text to the chunk objects, or the exception raised.
\<close>

record chunk_obj =
  chunk_text :: string

type_synonym chunker = "string \<Rightarrow> exn + chunk_obj list"

section \<open>Authentication\<close>

text \<open>
  \<^verbatim>\<open>verify_api_key\<close>: the parameter is a \<^verbatim>\<open>str\<close>; the configured key is a \<^verbatim>\<open>str\<close> or \<^verbatim>\<open>None\<close>,
  and Python's \<^verbatim>\<open>!=\<close> between a \<^verbatim>\<open>str\<close> and \<^verbatim>\<open>None\<close> is always true.
\<close>

definition verify_api_key :: "config \<Rightarrow> string \<Rightarrow> HTTPException + unit" where
  "verify_api_key cfg x_internal_api_key =
     (if Some x_internal_api_key \<noteq> API_KEY cfg
      then Inl (HTTPException 401 ''Unauthorized'')
      else Inr ())"

section \<open>Delivery with retry\<close>

text \<open>
  One pass through the \<^verbatim>\<open>try\<close> body: the value returned or the exception raised, with the
  effects up to that point.
\<close>

definition try_post :: "config \<Rightarrow> attempt_result \<Rightarrow> pydict \<Rightarrow> (exn + json) \<times> event list" where
  "try_post cfg r payload =
     (let headers = [(''X-Internal-API-Key'', API_KEY cfg)];
          post = PostCall (LARAVEL_API_URL cfg) headers payload
      in case r of
           PostRaises e \<Rightarrow> (Inl e, [post])
         | StatusRaises m \<Rightarrow> (Inl (HTTPError m), [post])
         | JsonRaises e \<Rightarrow> (Inl e, [post, Log INFO Sent_to_laravel])
         | JsonReturns j \<Rightarrow> (Inr j, [post, Log INFO Sent_to_laravel]))"

text \<open>
  The \<^verbatim>\<open>for attempt in range(retries)\<close> loop, over the attempt numbers still to run. Falling
  off the end of the loop returns \<^verbatim>\<open>None\<close>. Only an \<^verbatim>\<open>httpx.HTTPError\<close> is caught; any other
  exception leaves the function at once. The delay is a Python float and is a real number
  here: the product \<^verbatim>\<open>delay * (2 ** attempt)\<close> with a power of two is exact in binary
  floating point as long as it does not overflow.
\<close>

fun retry_loop ::
  "config \<Rightarrow> (nat \<Rightarrow> attempt_result) \<Rightarrow> pydict \<Rightarrow> int \<Rightarrow> real \<Rightarrow> nat list
     \<Rightarrow> (exn + json option) \<times> event list" where
  "retry_loop cfg target payload retries delay [] = (Inr None, [])"
| "retry_loop cfg target payload retries delay (attempt # rest) =
     (case try_post cfg (target attempt) payload of
        (Inr j, tr) \<Rightarrow> (Inr (Some j), tr)
      | (Inl e, tr) \<Rightarrow>
          if is_HTTPError e then
            (let warn = Log WARNING (Attempt_failed (int attempt + 1) (str_exn e)) in
             if int attempt < retries - 1 then
               (let (res, tr') = retry_loop cfg target payload retries delay rest
                in (res, tr @ [warn, Sleep (delay * 2 ^ attempt)] @ tr'))
             else
               (Inl e, tr @ [warn, Log ERROR (All_retries_failed (map_of payload ''lesson_id''))]))
          else (Inl e, tr))"

definition send_to_laravel_with_retry ::
  "config \<Rightarrow> (nat \<Rightarrow> attempt_result) \<Rightarrow> pydict \<Rightarrow> int \<Rightarrow> real
     \<Rightarrow> (exn + json option) \<times> event list" where
  "send_to_laravel_with_retry cfg target payload retries delay =
     retry_loop cfg target payload retries delay [0..<nat retries]"

section \<open>The background task\<close>

text \<open>
  \<^verbatim>\<open>str.strip()\<close> removes leading and trailing whitespace. Characters are code points
  below 256; these are the ones for which Python's \<^verbatim>\<open>str.isspace\<close> holds.
\<close>

definition isspace :: "char \<Rightarrow> bool" where
  "isspace c = ((of_char c :: nat) \<in> {9, 10, 11, 12, 13, 28, 29, 30, 31, 32, 133, 160})"

definition strip :: "string \<Rightarrow> string" where
  "strip s = rev (dropWhile isspace (rev (dropWhile isspace s)))"

text \<open>
  \<^verbatim>\<open>[{"text": c.text, "chunk_index": idx} for idx, c in enumerate(chunked_objs)]\<close>
\<close>

definition chunk_records :: "chunk_obj list \<Rightarrow> json list" where
  "chunk_records chunked_objs =
     map (\<lambda>(idx, c). JObj [(''text'', JStr (chunk_text c)), (''chunk_index'', JInt (int idx))])
       (enumerate 0 chunked_objs)"

text \<open>
  The first \<^verbatim>\<open>try\<close> block of \<^verbatim>\<open>process_lesson\<close>: the chunk records, or the exception that
  the \<^verbatim>\<open>except Exception\<close> clause receives.
\<close>

definition chunk_stage :: "chunker \<Rightarrow> string \<Rightarrow> exn + json list" where
  "chunk_stage chunker full_text =
     (case chunker full_text of
        Inl e \<Rightarrow> Inl e
      | Inr chunked_objs \<Rightarrow>
          (let chunks = chunk_records chunked_objs
           in if chunks = [] then Inl (ValueError ''No chunks produced.'') else Inr chunks))"

definition build_payload :: "LessonInput \<Rightarrow> string \<Rightarrow> json list \<Rightarrow> pydict" where
  "build_payload data full_text chunks =
     [(''title'', JStr (strip (lesson_title data))),
      (''text'', JStr full_text),
      (''course_id'', JInt (course_id data)),
      (''lesson_id'', JInt (lesson_id data)),
      (''type'', JStr (type data)),
      (''chunks'', JList chunks)]"

text \<open>
  \<^verbatim>\<open>process_lesson\<close>. The result is \<^verbatim>\<open>Inr ()\<close> when the coroutine returns and \<^verbatim>\<open>Inl e\<close> when
  an exception leaves it. The delivery is called with its defaults, three attempts and a
  base delay of 2.0 seconds. The statements outside the two \<^verbatim>\<open>try\<close> blocks, the two
  \<^verbatim>\<open>strip\<close> calls on \<^verbatim>\<open>str\<close> fields, the dict display and the \<^verbatim>\<open>print\<close>, are taken not to raise.
\<close>

definition process_lesson ::
  "config \<Rightarrow> chunker \<Rightarrow> (nat \<Rightarrow> attempt_result) \<Rightarrow> LessonInput \<Rightarrow> (exn + unit) \<times> event list" where
  "process_lesson cfg chunker target data =
     (let full_text = strip (lesson_content data)
      in case chunk_stage chunker full_text of
           Inl e \<Rightarrow> (Inr (), [Log ERROR (Chunking_failed (lesson_id data) (str_exn e))])
         | Inr chunks \<Rightarrow>
             (let payload = build_payload data full_text chunks
              in case send_to_laravel_with_retry cfg target payload 3 2 of
                   (Inr r, tr) \<Rightarrow> (Inr (), Print payload # tr @ [Log INFO (Lesson_sent (lesson_id data))])
                 | (Inl e, tr) \<Rightarrow>
                     (Inr (), Print payload # tr
                        @ [Log ERROR (Final_failure (lesson_id data) (str_exn e))])))"

section \<open>The route POST /chunk\<close>

text \<open>
  A background task is the function with its argument; \<^verbatim>\<open>add_task\<close> appends it to the
  request's task list and does not run it.
\<close>

datatype task = Process_lesson LessonInput

definition chunk_lesson :: "LessonInput \<Rightarrow> task list \<Rightarrow> (HTTPException + pydict) \<times> task list" where
  "chunk_lesson data background_tasks =
     (if type data \<notin> {''created'', ''updated'', ''deleted''}
      then (Inl (HTTPException 400 ''Invalid lesson type''), background_tasks)
      else (Inr [(''message'', JStr ''Chunking request accepted and processing in background.'')],
            background_tasks @ [Process_lesson data]))"

text \<open>
  A request whose body has passed the validation of \<^verbatim>\<open>LessonInput\<close>; the header
  \<^verbatim>\<open>X-Internal-API-Key\<close> may be absent.
\<close>

record request =
  x_internal_api_key :: "string option"
  lesson :: LessonInput

definition error_response :: "HTTPException \<Rightarrow> response" where
  "error_response e = \<lparr>status = status_code e, body = JObj [(''detail'', JStr (detail e))]\<rparr>"

text \<open>
  What the decorators of the route amount to. The dependency \<^verbatim>\<open>verify_api_key\<close> declares its
  parameter as \<^verbatim>\<open>str = Header(...)\<close>, a required header: the framework answers a request
  without it with its validation error, status 422 (the body, a list of the fields at
  fault, is abridged to its message here), and calls neither the dependency nor the
  handler. Otherwise the dependency runs first, then the handler with an empty task
  list; an \<^verbatim>\<open>HTTPException\<close> becomes the response with its status code, and a returned dict
  becomes the JSON body of a response with the route's default status, 200.
\<close>

definition post_chunk :: "config \<Rightarrow> request \<Rightarrow> response \<times> task list" where
  "post_chunk cfg req =
     (case x_internal_api_key req of
        None \<Rightarrow> (\<lparr>status = 422, body = JObj [(''detail'', JStr ''Field required'')]\<rparr>, [])
      | Some key \<Rightarrow>
          (case verify_api_key cfg key of
             Inl e \<Rightarrow> (error_response e, [])
           | Inr u \<Rightarrow>
               (case chunk_lesson (lesson req) [] of
                  (Inl e, tasks) \<Rightarrow> (error_response e, tasks)
                | (Inr d, tasks) \<Rightarrow> (\<lparr>status = 200, body = JObj d\<rparr>, tasks))))"

section \<open>Sample inputs\<close>

text \<open>
  A configuration, a lesson, a chunker that cuts a text after twelve characters, and a
  delivery target that refuses two connections and then answers; the properties below
  are evaluated on them.
\<close>

definition cfg0 :: config where
  "cfg0 = \<lparr>API_KEY = Some ''s3cret'', LARAVEL_API_URL = Some ''http://laravel.test/api/chunks''\<rparr>"

definition lesson0 :: LessonInput where
  "lesson0 = \<lparr>course_id = 1, lesson_id = 42, lesson_title = '' Intro '',
     lesson_content = '' Alpha beta. Gamma delta. '', type = ''created''\<rparr>"

definition chunker0 :: chunker where
  "chunker0 t = (if t = [] then Inr [] else Inr [\<lparr>chunk_text = take 12 t\<rparr>, \<lparr>chunk_text = drop 12 t\<rparr>])"

definition target2 :: "nat \<Rightarrow> attempt_result" where
  "target2 i = (if i < 2 then PostRaises (HTTPError ''connection refused'')
                else JsonReturns (JObj [(''status'', JStr ''ok'')]))"

section \<open>Properties\<close>


lemma try_post_failure:
  "http_failure r \<Longrightarrow>
   try_post cfg r payload =
     (Inl (failure_exn r), [PostCall (LARAVEL_API_URL cfg) [(''X-Internal-API-Key'', API_KEY cfg)] payload])
   \<and> is_HTTPError (failure_exn r)"
  by (cases r) (simp_all add: try_post_def)

lemma retry_loop_all_fail:
  assumes "\<forall>i. a \<le> i \<and> i < n \<longrightarrow> http_failure (target i)" and "a < n" and "retries = int n"
  shows "retry_loop cfg target payload retries delay [a..<n] = (res, tr) \<Longrightarrow>
     res = Inl (failure_exn (target (n - 1)))
     \<and> length (posts_of tr) = n - a
     \<and> last tr = Log ERROR (All_retries_failed (map_of payload ''lesson_id''))
     \<and> sleeps_of tr = map (\<lambda>k. delay * 2 ^ k) [a..<n - 1]"
  using assms
proof (induction "n - a" arbitrary: a res tr)
  case 0
  then show ?case by simp
next
  case (Suc d)
  have fa: "http_failure (target a)" using Suc.prems by simp
  have up: "[a..<n] = a # [Suc a..<n]" using Suc.prems by (simp add: upt_conv_Cons)
  note tp = try_post_failure [OF fa, of cfg payload]
  show ?case
  proof (cases "Suc a < n")
    case True
    obtain res' tr' where r': "retry_loop cfg target payload retries delay [Suc a..<n] = (res', tr')"
      by (cases "retry_loop cfg target payload retries delay [Suc a..<n]")
    have d: "d = n - Suc a" using Suc.hyps by simp
    have all: "\<forall>i. Suc a \<le> i \<and> i < n \<longrightarrow> http_failure (target i)" using Suc.prems by simp
    note ih = Suc.hyps(1) [OF d r' all True Suc.prems(4)]
    have lt: "int a < retries - 1" using True Suc.prems by simp
    have tr: "tr = [PostCall (LARAVEL_API_URL cfg) [(''X-Internal-API-Key'', API_KEY cfg)] payload]
        @ [Log WARNING (Attempt_failed (int a + 1) (str_exn (failure_exn (target a)))), Sleep (delay * 2 ^ a)] @ tr'"
      and res: "res = res'"
      using Suc.prems(1) tp lt r' by (simp_all add: up)
    have ne: "tr' \<noteq> []" using ih True by (auto simp: posts_of_def)
    have "[a..<n - 1] = a # [Suc a..<n - 1]" using True by (simp add: upt_conv_Cons)
    then show ?thesis using ih ne True by (simp add: tr res posts_of_def)
  next
    case False
    then have n: "n = Suc a" using Suc.prems by simp
    have lt: "\<not> int a < retries - 1" using n Suc.prems by simp
    show ?thesis using Suc.prems(1) tp lt by (auto simp: n posts_of_def)
  qed
qed

lemma try_post_success:
  "try_post cfg (JsonReturns j) payload =
     (Inr j, [PostCall (LARAVEL_API_URL cfg) [(''X-Internal-API-Key'', API_KEY cfg)] payload,
              Log INFO Sent_to_laravel])"
  by (simp add: try_post_def)

lemma retry_loop_fail_then_succeed:
  assumes "\<forall>i. a \<le> i \<and> i < m \<longrightarrow> http_failure (target i)" and "target m = JsonReturns j"
    and "a \<le> m" and "m < n" and "int m < retries"
  shows "retry_loop cfg target payload retries delay [a..<n] = (res, tr) \<Longrightarrow>
     res = Inr (Some j)
     \<and> length (posts_of tr) = Suc m - a
     \<and> last tr = Log INFO Sent_to_laravel
     \<and> sleeps_of tr = map (\<lambda>k. delay * 2 ^ k) [a..<m]"
  using assms
proof (induction "m - a" arbitrary: a res tr)
  case 0
  then have am: "a = m" by simp
  have up: "[m..<n] = m # [Suc m..<n]" using "0.prems" by (simp add: upt_conv_Cons)
  show ?case using "0.prems"(1,3) try_post_success [of cfg j payload]
    by (auto simp: am up posts_of_def)
next
  case (Suc d)
  have lt_m: "a < m" using Suc.hyps by simp
  have fa: "http_failure (target a)" using Suc.prems lt_m by simp
  have up: "[a..<n] = a # [Suc a..<n]" using Suc.prems lt_m by (simp add: upt_conv_Cons)
  note tp = try_post_failure [OF fa, of cfg payload]
  obtain res' tr' where r': "retry_loop cfg target payload retries delay [Suc a..<n] = (res', tr')"
    by (cases "retry_loop cfg target payload retries delay [Suc a..<n]")
  have d: "d = m - Suc a" using Suc.hyps by simp
  have all: "\<forall>i. Suc a \<le> i \<and> i < m \<longrightarrow> http_failure (target i)" using Suc.prems by simp
  have le: "Suc a \<le> m" using lt_m by simp
  note ih = Suc.hyps(1) [OF d r' all Suc.prems(3) le Suc.prems(5,6)]
  have lt: "int a < retries - 1" using lt_m Suc.prems by simp
  have tr: "tr = [PostCall (LARAVEL_API_URL cfg) [(''X-Internal-API-Key'', API_KEY cfg)] payload]
      @ [Log WARNING (Attempt_failed (int a + 1) (str_exn (failure_exn (target a)))), Sleep (delay * 2 ^ a)] @ tr'"
    and res: "res = res'"
    using Suc.prems(1) tp lt r' by (simp_all add: up)
  have ne: "tr' \<noteq> []" using ih le by (auto simp: posts_of_def)
  have "[a..<m] = a # [Suc a..<m]" using lt_m by (simp add: upt_conv_Cons)
  then show ?case using ih ne lt_m by (simp add: tr res posts_of_def Suc_diff_le)
qed

lemma retry_loop_posts:
  "set (posts_of (snd (retry_loop cfg target payload retries delay as)))
     \<subseteq> {PostCall (LARAVEL_API_URL cfg) [(''X-Internal-API-Key'', API_KEY cfg)] payload}"
proof (induction as)
  case Nil
  then show ?case by (simp add: posts_of_def)
next
  case (Cons a as)
  then show ?case
    by (cases "target a")
       (auto simp: posts_of_def try_post_def Let_def split: prod.splits if_splits)
qed

lemma retry_loop_first_post:
  "as \<noteq> [] \<Longrightarrow> posts_of (snd (retry_loop cfg target payload retries delay as)) \<noteq> []"
  by (cases as; cases "target (hd as)")
     (auto simp: posts_of_def try_post_def Let_def split: prod.splits if_splits)

lemma chunk_records_eq:
  "chunk_records objs =
     map (\<lambda>i. JObj [(''text'', JStr (chunk_text (objs ! i))), (''chunk_index'', JInt (int i))])
       [0..<length objs]"
  by (rule nth_equalityI) (simp_all add: chunk_records_def nth_enumerate_eq)

lemma chunk_records_length: "length (chunk_records objs) = length objs"
  by (simp add: chunk_records_def)

lemma chunk_stage_success:
  "chunker t = Inr objs \<Longrightarrow> objs \<noteq> [] \<Longrightarrow> chunk_stage chunker t = Inr (chunk_records objs)"
  using chunk_records_length [of objs] by (auto simp: chunk_stage_def Let_def)

lemma chunk_stage_failure:
  "chunker t = Inl e \<Longrightarrow> chunk_stage chunker t = Inl e"
  "chunker t = Inr [] \<Longrightarrow> chunk_stage chunker t = Inl (ValueError ''No chunks produced.'')"
  by (simp_all add: chunk_stage_def chunk_records_def)


lemma send_all_fail:
  assumes "\<forall>i. http_failure (target i)" and "0 < retries"
  shows "fst (send_to_laravel_with_retry cfg target payload retries delay)
           = Inl (failure_exn (target (nat retries - 1)))"
    and "length (posts_of (snd (send_to_laravel_with_retry cfg target payload retries delay)))
           = nat retries"
    and "last (snd (send_to_laravel_with_retry cfg target payload retries delay))
           = Log ERROR (All_retries_failed (map_of payload ''lesson_id''))"
    and "sleeps_of (snd (send_to_laravel_with_retry cfg target payload retries delay))
           = map (\<lambda>k. delay * 2 ^ k) [0..<nat retries - 1]"
proof -
  obtain res tr where r: "retry_loop cfg target payload retries delay [0..<nat retries] = (res, tr)"
    by (cases "retry_loop cfg target payload retries delay [0..<nat retries]")
  have a: "\<forall>i. 0 \<le> i \<and> i < nat retries \<longrightarrow> http_failure (target i)" using assms by simp
  have b: "0 < nat retries" and c: "retries = int (nat retries)" using assms by simp_all
  note l = retry_loop_all_fail [OF a b c r]
  show "fst (send_to_laravel_with_retry cfg target payload retries delay)
           = Inl (failure_exn (target (nat retries - 1)))"
    and "length (posts_of (snd (send_to_laravel_with_retry cfg target payload retries delay)))
           = nat retries"
    and "last (snd (send_to_laravel_with_retry cfg target payload retries delay))
           = Log ERROR (All_retries_failed (map_of payload ''lesson_id''))"
    and "sleeps_of (snd (send_to_laravel_with_retry cfg target payload retries delay))
           = map (\<lambda>k. delay * 2 ^ k) [0..<nat retries - 1]"
    using l by (simp_all add: send_to_laravel_with_retry_def r)
qed

lemma process_lesson_chunked:
  assumes "chunk_stage chunker (strip (lesson_content data)) = Inr chunks"
  shows "process_lesson cfg chunker target data =
     (let payload = build_payload data (strip (lesson_content data)) chunks;
          s = send_to_laravel_with_retry cfg target payload 3 2
      in (Inr (), Print payload # snd s @
            [case fst s of
               Inr r \<Rightarrow> Log INFO (Lesson_sent (lesson_id data))
             | Inl e \<Rightarrow> Log ERROR (Final_failure (lesson_id data) (str_exn e))]))"
  using assms by (simp add: process_lesson_def Let_def split: prod.splits sum.splits)

lemma payload_lesson_id:
  "map_of (build_payload data t chunks) ''lesson_id'' = Some (JInt (lesson_id data))"
  by (simp add: build_payload_def)

text \<open>
  C1. When every delivery attempt fails, by an \<^verbatim>\<open>httpx.HTTPError\<close> of the POST or by an error
  status, \<^verbatim>\<open>send_to_laravel_with_retry\<close> makes exactly \<^verbatim>\<open>retries\<close> attempts, logs that all
  retries failed and raises the last error. Called from \<^verbatim>\<open>process_lesson\<close>, with the default
  of three attempts, the error is caught there: the task makes three POSTs, logs the final
  failure as its last act and returns without an exception.
\<close>

theorem always_failing_target_exhausts_retries:
  assumes "\<forall>i. http_failure (target i)"
  shows "(0 < retries \<longrightarrow>
            fst (send_to_laravel_with_retry cfg target payload retries delay)
              = Inl (failure_exn (target (nat retries - 1)))
          \<and> length (posts_of (snd (send_to_laravel_with_retry cfg target payload retries delay)))
              = nat retries
          \<and> last (snd (send_to_laravel_with_retry cfg target payload retries delay))
              = Log ERROR (All_retries_failed (map_of payload ''lesson_id'')))
       \<and> (chunk_stage chunker (strip (lesson_content data)) = Inr chunks \<longrightarrow>
            fst (process_lesson cfg chunker target data) = Inr ()
          \<and> length (posts_of (snd (process_lesson cfg chunker target data))) = 3
          \<and> Log ERROR (All_retries_failed (Some (JInt (lesson_id data))))
              \<in> set (snd (process_lesson cfg chunker target data))
          \<and> last (snd (process_lesson cfg chunker target data))
              = Log ERROR (Final_failure (lesson_id data) (str_exn (failure_exn (target 2)))))"
proof (intro conjI impI)
  assume r: "0 < retries"
  show "fst (send_to_laravel_with_retry cfg target payload retries delay)
              = Inl (failure_exn (target (nat retries - 1)))"
    by (rule send_all_fail(1) [OF assms r])
  show "length (posts_of (snd (send_to_laravel_with_retry cfg target payload retries delay)))
              = nat retries"
    by (rule send_all_fail(2) [OF assms r])
  show "last (snd (send_to_laravel_with_retry cfg target payload retries delay))
              = Log ERROR (All_retries_failed (map_of payload ''lesson_id''))"
    by (rule send_all_fail(3) [OF assms r])
next
  assume c: "chunk_stage chunker (strip (lesson_content data)) = Inr chunks"
  define payload where "payload = build_payload data (strip (lesson_content data)) chunks"
  define s where "s = send_to_laravel_with_retry cfg target payload 3 2"
  have three: "(0::int) < 3" by simp
  have f: "fst s = Inl (failure_exn (target 2))"
    using send_all_fail(1) [OF assms three, of cfg payload 2] by (simp add: s_def)
  have n: "length (posts_of (snd s)) = 3"
    using send_all_fail(2) [OF assms three, of cfg payload 2] by (simp add: s_def)
  have l: "last (snd s) = Log ERROR (All_retries_failed (Some (JInt (lesson_id data))))"
    using send_all_fail(3) [OF assms three, of cfg payload 2]
    by (simp add: s_def payload_def payload_lesson_id)
  have ne: "snd s \<noteq> []" using n by (auto simp: posts_of_def)
  have p: "process_lesson cfg chunker target data =
     (Inr (), Print payload # snd s @
        [Log ERROR (Final_failure (lesson_id data) (str_exn (failure_exn (target 2))))])"
    using process_lesson_chunked [OF c, of cfg target] f
    by (simp add: Let_def payload_def [symmetric] s_def [symmetric])
  show "fst (process_lesson cfg chunker target data) = Inr ()"
    by (simp add: p)
  show "length (posts_of (snd (process_lesson cfg chunker target data))) = 3"
    using n by (simp add: p posts_of_def)
  show "Log ERROR (All_retries_failed (Some (JInt (lesson_id data))))
              \<in> set (snd (process_lesson cfg chunker target data))"
    using l ne last_in_set [of "snd s"] by (simp add: p)
  show "last (snd (process_lesson cfg chunker target data))
              = Log ERROR (Final_failure (lesson_id data) (str_exn (failure_exn (target 2))))"
    by (simp add: p)
qed


lemma strip0: "strip '' Alpha beta. Gamma delta. '' = ''Alpha beta. Gamma delta.''"
  by (simp add: strip_def isspace_def)

lemma strip1: "strip '' Intro '' = ''Intro''"
  by (simp add: strip_def isspace_def)

lemma chunk0: "chunk_stage chunker0 (strip (lesson_content lesson0)) =
   Inr [JObj [(''text'', JStr ''Alpha beta. ''), (''chunk_index'', JInt 0)],
        JObj [(''text'', JStr ''Gamma delta.''), (''chunk_index'', JInt 1)]]"
  by (simp add: lesson0_def strip0 chunk_stage_def chunker0_def chunk_records_def enumerate_eq_zip upt_rec)

theorem always_failing_target_exhausts_retries_witness:
  "(\<forall>i. http_failure (StatusRaises ''503 Service Unavailable''))
   \<and> (0::int) < 3
   \<and> fst (send_to_laravel_with_retry cfg0 (\<lambda>i. StatusRaises ''503 Service Unavailable'')
        [(''lesson_id'', JInt 42)] 3 2) = Inl (HTTPError ''503 Service Unavailable'')
   \<and> length (posts_of (snd (send_to_laravel_with_retry cfg0
        (\<lambda>i. StatusRaises ''503 Service Unavailable'') [(''lesson_id'', JInt 42)] 3 2))) = 3
   \<and> fst (process_lesson cfg0 chunker0 (\<lambda>i. StatusRaises ''503 Service Unavailable'') lesson0)
        = Inr ()
   \<and> length (posts_of (snd (process_lesson cfg0 chunker0
        (\<lambda>i. StatusRaises ''503 Service Unavailable'') lesson0))) = 3
   \<and> last (snd (process_lesson cfg0 chunker0 (\<lambda>i. StatusRaises ''503 Service Unavailable'') lesson0))
        = Log ERROR (Final_failure 42 ''503 Service Unavailable'')"
proof -
  have h: "\<forall>i. http_failure ((\<lambda>i. StatusRaises ''503 Service Unavailable'') i)" by simp
  show ?thesis
    using always_failing_target_exhausts_retries [OF h, of 3 cfg0 "[(''lesson_id'', JInt 42)]" 2
        chunker0 lesson0
        "[JObj [(''text'', JStr ''Alpha beta. ''), (''chunk_index'', JInt 0)],
          JObj [(''text'', JStr ''Gamma delta.''), (''chunk_index'', JInt 1)]]"]
      chunk0
    by (simp add: lesson0_def)
qed

text \<open>
  C2. When the delivery target fails on the first \<open>m\<close> attempts and answers the next one, with
  \<open>m\<close> below the number of attempts allowed, \<^verbatim>\<open>send_to_laravel_with_retry\<close> returns the decoded
  answer on attempt \<open>m + 1\<close>, and the sleep after the \<open>k\<close>-th failed attempt (counted from 1)
  lasts \<open>delay * 2 ^ (k - 1)\<close> seconds. For two failures, three attempts and the base delay 2
  the sleeps are 2 and 4 seconds.
\<close>

theorem retry_succeeds_after_failures_with_backoff:
  assumes "\<forall>i<m. http_failure (target i)" and "target m = JsonReturns j" and "int m < retries"
  shows "fst (send_to_laravel_with_retry cfg target payload retries delay) = Inr (Some j)
       \<and> length (posts_of (snd (send_to_laravel_with_retry cfg target payload retries delay)))
           = m + 1
       \<and> sleeps_of (snd (send_to_laravel_with_retry cfg target payload retries delay))
           = map (\<lambda>k. delay * 2 ^ k) [0..<m]
       \<and> last (snd (send_to_laravel_with_retry cfg target payload retries delay))
           = Log INFO Sent_to_laravel"
proof -
  obtain res tr where r: "retry_loop cfg target payload retries delay [0..<nat retries] = (res, tr)"
    by (cases "retry_loop cfg target payload retries delay [0..<nat retries]")
  have a: "\<forall>i. 0 \<le> i \<and> i < m \<longrightarrow> http_failure (target i)" using assms by simp
  have b: "0 \<le> m" and c: "m < nat retries" using assms by simp_all
  note l = retry_loop_fail_then_succeed [OF a assms(2) b c assms(3) r]
  show ?thesis using l by (simp add: send_to_laravel_with_retry_def r)
qed

theorem retry_succeeds_after_failures_with_backoff_witness:
  "http_failure (target2 0) \<and> http_failure (target2 1)
   \<and> target2 2 = JsonReturns (JObj [(''status'', JStr ''ok'')])
   \<and> int 2 < 3
   \<and> fst (send_to_laravel_with_retry cfg0 target2 [] 3 2) = Inr (Some (JObj [(''status'', JStr ''ok'')]))
   \<and> length (posts_of (snd (send_to_laravel_with_retry cfg0 target2 [] 3 2))) = 3
   \<and> sleeps_of (snd (send_to_laravel_with_retry cfg0 target2 [] 3 2)) = [2, 4]"
proof -
  have h1: "\<forall>i<2. http_failure (target2 i)" by (simp add: target2_def)
  have h2: "target2 2 = JsonReturns (JObj [(''status'', JStr ''ok'')])" by (simp add: target2_def)
  have h3: "int 2 < 3" by simp
  have g: "http_failure (target2 0) \<and> http_failure (target2 1)" by (simp add: target2_def)
  have u: "[0..<2] = [0, Suc 0]" by (simp add: upt_rec)
  show ?thesis
    using retry_succeeds_after_failures_with_backoff [OF h1 h2 h3, of cfg0 "[]" 2] h2 g
    by (simp add: u)
qed


text \<open>
  C3. A request to POST /chunk with the correct key whose \<^verbatim>\<open>type\<close> is not one of
  \<^verbatim>\<open>created\<close>, \<^verbatim>\<open>updated\<close>, \<^verbatim>\<open>deleted\<close> is answered with status 400, and no background task
  is scheduled: the handler raises before \<^verbatim>\<open>add_task\<close> and leaves the task list as it was.
\<close>

theorem invalid_type_rejected_with_400:
  assumes "x_internal_api_key req = Some key" and "API_KEY cfg = Some key"
    and "type (lesson req) \<notin> {''created'', ''updated'', ''deleted''}"
  shows "post_chunk cfg req
           = (\<lparr>status = 400, body = JObj [(''detail'', JStr ''Invalid lesson type'')]\<rparr>, [])
       \<and> chunk_lesson (lesson req) tasks
           = (Inl (HTTPException 400 ''Invalid lesson type''), tasks)"
  using assms
  by (simp add: post_chunk_def verify_api_key_def chunk_lesson_def error_response_def)

theorem invalid_type_rejected_with_400_witness:
  "x_internal_api_key \<lparr>x_internal_api_key = Some ''s3cret'', lesson = lesson0\<lparr>type := ''archived''\<rparr>\<rparr>
     = Some ''s3cret''
   \<and> API_KEY cfg0 = Some ''s3cret''
   \<and> type (lesson \<lparr>x_internal_api_key = Some ''s3cret'', lesson = lesson0\<lparr>type := ''archived''\<rparr>\<rparr>)
        \<notin> {''created'', ''updated'', ''deleted''}
   \<and> post_chunk cfg0 \<lparr>x_internal_api_key = Some ''s3cret'', lesson = lesson0\<lparr>type := ''archived''\<rparr>\<rparr>
        = (\<lparr>status = 400, body = JObj [(''detail'', JStr ''Invalid lesson type'')]\<rparr>, [])"
proof -
  have h1: "x_internal_api_key \<lparr>x_internal_api_key = Some ''s3cret'',
      lesson = lesson0\<lparr>type := ''archived''\<rparr>\<rparr> = Some ''s3cret''" by simp
  have h2: "API_KEY cfg0 = Some ''s3cret''" by (simp add: cfg0_def)
  have h3: "type (lesson \<lparr>x_internal_api_key = Some ''s3cret'',
      lesson = lesson0\<lparr>type := ''archived''\<rparr>\<rparr>) \<notin> {''created'', ''updated'', ''deleted''}" by simp
  show ?thesis
    using invalid_type_rejected_with_400 [OF h1 h2 h3, of "[]"] h1 h2 h3 by simp
qed

text \<open>
  C4, as the code has it. A request to POST /chunk whose \<^verbatim>\<open>X-Internal-API-Key\<close> header is
  present and differs from the configured secret is answered with 401, whatever its lesson
  type, and schedules no background task. A request without the header is rejected too and
  schedules nothing, but by the validation of the required header, with status 422: then
  \<^verbatim>\<open>verify_api_key\<close> is not called at all.
\<close>

theorem wrong_key_unauthorized:
  "(x_internal_api_key req = Some key \<and> Some key \<noteq> API_KEY cfg \<longrightarrow>
      post_chunk cfg req = (\<lparr>status = 401, body = JObj [(''detail'', JStr ''Unauthorized'')]\<rparr>, []))
   \<and> (x_internal_api_key req = None \<longrightarrow>
        status (fst (post_chunk cfg req)) = 422 \<and> snd (post_chunk cfg req) = [])"
  by (simp add: post_chunk_def verify_api_key_def error_response_def)

theorem wrong_key_unauthorized_witness:
  "Some ''guess'' \<noteq> API_KEY cfg0
   \<and> post_chunk cfg0 \<lparr>x_internal_api_key = Some ''guess'', lesson = lesson0\<rparr>
       = (\<lparr>status = 401, body = JObj [(''detail'', JStr ''Unauthorized'')]\<rparr>, [])
   \<and> post_chunk cfg0 \<lparr>x_internal_api_key = Some ''guess'', lesson = lesson0\<lparr>type := ''archived''\<rparr>\<rparr>
       = (\<lparr>status = 401, body = JObj [(''detail'', JStr ''Unauthorized'')]\<rparr>, [])
   \<and> status (fst (post_chunk cfg0 \<lparr>x_internal_api_key = None, lesson = lesson0\<rparr>)) = 422
   \<and> snd (post_chunk cfg0 \<lparr>x_internal_api_key = None, lesson = lesson0\<rparr>) = []"
  using wrong_key_unauthorized [of "\<lparr>x_internal_api_key = Some ''guess'', lesson = lesson0\<rparr>" "''guess''" cfg0]
    wrong_key_unauthorized [of "\<lparr>x_internal_api_key = Some ''guess'', lesson = lesson0\<lparr>type := ''archived''\<rparr>\<rparr>" "''guess''" cfg0]
    wrong_key_unauthorized [of "\<lparr>x_internal_api_key = None, lesson = lesson0\<rparr>" "''guess''" cfg0]
  by (simp add: cfg0_def)

text \<open>
  The sentence as the specification has it, with 401 for a missing header as well, fails on
  a request that carries no key header.
\<close>

theorem missing_header_is_not_401:
  "status (fst (post_chunk cfg0 \<lparr>x_internal_api_key = None, lesson = lesson0\<rparr>)) \<noteq> 401"
  by (simp add: post_chunk_def)

text \<open>
  C6. When the chunker raises an exception or returns no chunks, \<^verbatim>\<open>process_lesson\<close> logs one
  error and returns: no payload is built or printed, no POST is attempted, nothing is
  raised.
\<close>

theorem chunking_failure_aborts_silently:
  assumes "chunker (strip (lesson_content data)) = Inl e
           \<or> chunker (strip (lesson_content data)) = Inr []"
  shows "process_lesson cfg chunker target data
           = (Inr (), [Log ERROR (Chunking_failed (lesson_id data)
                (case chunker (strip (lesson_content data)) of
                   Inl e \<Rightarrow> str_exn e | Inr objs \<Rightarrow> ''No chunks produced.''))])
       \<and> posts_of (snd (process_lesson cfg chunker target data)) = []"
  using assms
  by (auto simp: process_lesson_def chunk_stage_failure posts_of_def)

theorem chunking_failure_aborts_silently_witness:
  "chunker0 (strip (lesson_content (lesson0\<lparr>lesson_content := ''   ''\<rparr>))) = Inr []
   \<and> process_lesson cfg0 chunker0 (\<lambda>i. JsonReturns JNull) (lesson0\<lparr>lesson_content := ''   ''\<rparr>)
       = (Inr (), [Log ERROR (Chunking_failed 42 ''No chunks produced.'')])
   \<and> process_lesson cfg0 (\<lambda>t. Inl (OtherException ''tokenizer unavailable''))
        (\<lambda>i. JsonReturns JNull) lesson0
       = (Inr (), [Log ERROR (Chunking_failed 42 ''tokenizer unavailable'')])"
proof -
  have h: "chunker0 (strip (lesson_content (lesson0\<lparr>lesson_content := ''   ''\<rparr>))) = Inr []"
    by (simp add: chunker0_def strip_def isspace_def)
  show ?thesis
    using chunking_failure_aborts_silently [where chunker = chunker0
        and data = "lesson0\<lparr>lesson_content := ''   ''\<rparr>" and cfg = cfg0
        and target = "\<lambda>i. JsonReturns JNull"]
      chunking_failure_aborts_silently [where data = lesson0 and cfg = cfg0
        and chunker = "\<lambda>t. Inl (OtherException ''tokenizer unavailable'')"
        and e = "OtherException ''tokenizer unavailable''" and target = "\<lambda>i. JsonReturns JNull"]
      h
    by (simp add: lesson0_def)
qed


text \<open>
  C7. For a lesson that chunks successfully, the task posts at least once, and every POST
  goes to the configured URL with the header \<^verbatim>\<open>X-Internal-API-Key\<close> set to the configured key
  and a JSON body with exactly the keys \<^verbatim>\<open>title\<close>, \<^verbatim>\<open>text\<close>, \<^verbatim>\<open>course_id\<close>, \<^verbatim>\<open>lesson_id\<close>,
  \<^verbatim>\<open>type\<close> and \<^verbatim>\<open>chunks\<close>: the trimmed title, the trimmed content, the two ids and the type
  as received, and the chunk texts in the chunker's order, each with its 0-based index.
\<close>

theorem outbound_post_url_header_body:
  assumes "chunker (strip (lesson_content data)) = Inr objs" and "objs \<noteq> []"
  shows "posts_of (snd (process_lesson cfg chunker target data)) \<noteq> []
       \<and> set (posts_of (snd (process_lesson cfg chunker target data)))
           = {PostCall (LARAVEL_API_URL cfg) [(''X-Internal-API-Key'', API_KEY cfg)]
                [(''title'', JStr (strip (lesson_title data))),
                 (''text'', JStr (strip (lesson_content data))),
                 (''course_id'', JInt (course_id data)),
                 (''lesson_id'', JInt (lesson_id data)),
                 (''type'', JStr (type data)),
                 (''chunks'', JList (map (\<lambda>i. JObj [(''text'', JStr (chunk_text (objs ! i))),
                                                     (''chunk_index'', JInt (int i))])
                                      [0..<length objs]))]}"
proof -
  define payload where
    "payload = build_payload data (strip (lesson_content data)) (chunk_records objs)"
  define s where "s = send_to_laravel_with_retry cfg target payload 3 2"
  have c: "chunk_stage chunker (strip (lesson_content data)) = Inr (chunk_records objs)"
    by (rule chunk_stage_success [of chunker "strip (lesson_content data)" objs, OF assms])
  have p: "posts_of (snd (process_lesson cfg chunker target data)) = posts_of (snd s)"
    using process_lesson_chunked [OF c, of cfg target]
    by (simp add: Let_def payload_def [symmetric] s_def [symmetric] posts_of_def split: sum.splits)
  have u: "[0..<nat 3] \<noteq> []" by simp
  have ne: "posts_of (snd s) \<noteq> []"
    using retry_loop_first_post [OF u, of cfg target payload 3 2]
    by (simp add: s_def send_to_laravel_with_retry_def)
  have sub: "set (posts_of (snd s))
      \<subseteq> {PostCall (LARAVEL_API_URL cfg) [(''X-Internal-API-Key'', API_KEY cfg)] payload}"
    using retry_loop_posts [of cfg target payload 3 2 "[0..<nat 3]"]
    by (simp add: s_def send_to_laravel_with_retry_def)
  have "set (posts_of (snd s)) \<noteq> {}" using ne by simp
  with sub have eq: "set (posts_of (snd s))
      = {PostCall (LARAVEL_API_URL cfg) [(''X-Internal-API-Key'', API_KEY cfg)] payload}"
    by (simp add: subset_singleton_iff)
  have pl: "payload = [(''title'', JStr (strip (lesson_title data))),
                 (''text'', JStr (strip (lesson_content data))),
                 (''course_id'', JInt (course_id data)),
                 (''lesson_id'', JInt (lesson_id data)),
                 (''type'', JStr (type data)),
                 (''chunks'', JList (map (\<lambda>i. JObj [(''text'', JStr (chunk_text (objs ! i))),
                                                     (''chunk_index'', JInt (int i))])
                                      [0..<length objs]))]"
    by (simp only: payload_def build_payload_def chunk_records_eq)
  show ?thesis using ne eq by (simp only: p pl simp_thms)
qed

theorem outbound_post_url_header_body_witness:
  "chunker0 (strip (lesson_content lesson0))
     = Inr [\<lparr>chunk_text = ''Alpha beta. ''\<rparr>, \<lparr>chunk_text = ''Gamma delta.''\<rparr>]
   \<and> [\<lparr>chunk_text = ''Alpha beta. ''\<rparr>, \<lparr>chunk_text = ''Gamma delta.''\<rparr>] \<noteq> []
   \<and> set (posts_of (snd (process_lesson cfg0 chunker0 target2 lesson0)))
       = {PostCall (Some ''http://laravel.test/api/chunks'') [(''X-Internal-API-Key'', Some ''s3cret'')]
            [(''title'', JStr ''Intro''),
             (''text'', JStr ''Alpha beta. Gamma delta.''),
             (''course_id'', JInt 1),
             (''lesson_id'', JInt 42),
             (''type'', JStr ''created''),
             (''chunks'', JList [JObj [(''text'', JStr ''Alpha beta. ''), (''chunk_index'', JInt 0)],
                                JObj [(''text'', JStr ''Gamma delta.''), (''chunk_index'', JInt 1)]])]}"
proof -
  have h1: "chunker0 (strip (lesson_content lesson0))
     = Inr [\<lparr>chunk_text = ''Alpha beta. ''\<rparr>, \<lparr>chunk_text = ''Gamma delta.''\<rparr>]"
    by (simp add: lesson0_def strip0 chunker0_def)
  have h2: "[\<lparr>chunk_text = ''Alpha beta. ''\<rparr>, \<lparr>chunk_text = ''Gamma delta.''\<rparr>] \<noteq> []" by simp
  have u: "[0..<2] = [0, Suc 0]" by (simp add: upt_rec)
  show ?thesis
    using outbound_post_url_header_body [where chunker = chunker0 and data = lesson0
        and objs = "[\<lparr>chunk_text = ''Alpha beta. ''\<rparr>, \<lparr>chunk_text = ''Gamma delta.''\<rparr>]"
        and cfg = cfg0 and target = target2, OF h1 h2] h1
    by (simp add: u cfg0_def lesson0_def strip0 strip1)
qed

text \<open>
  C8. \<^verbatim>\<open>process_lesson\<close> returns normally on every input, whatever the chunker and the
  delivery target do: an exception of the chunking stage ends the task with one error log,
  and an exception that leaves the delivery, retry exhaustion included, is logged as the
  final failure.
\<close>

theorem process_lesson_never_raises:
  "fst (process_lesson cfg chunker target data) = Inr ()
   \<and> (chunk_stage chunker (strip (lesson_content data)) = Inl e \<longrightarrow>
        snd (process_lesson cfg chunker target data)
          = [Log ERROR (Chunking_failed (lesson_id data) (str_exn e))])
   \<and> (chunk_stage chunker (strip (lesson_content data)) = Inr chunks
        \<and> fst (send_to_laravel_with_retry cfg target
               (build_payload data (strip (lesson_content data)) chunks) 3 2) = Inl e \<longrightarrow>
        last (snd (process_lesson cfg chunker target data))
          = Log ERROR (Final_failure (lesson_id data) (str_exn e)))"
  by (simp add: process_lesson_def Let_def split: sum.splits prod.splits)

theorem process_lesson_never_raises_witness:
  "chunk_stage (\<lambda>t. Inl (ValueError ''bad text'')) (strip (lesson_content lesson0))
     = Inl (ValueError ''bad text'')
   \<and> process_lesson cfg0 (\<lambda>t. Inl (ValueError ''bad text'')) target2 lesson0
       = (Inr (), [Log ERROR (Chunking_failed 42 ''bad text'')])
   \<and> fst (send_to_laravel_with_retry cfg0 (\<lambda>i. JsonRaises (ValueError ''Expecting value''))
        (build_payload lesson0 (strip (lesson_content lesson0))
           [JObj [(''text'', JStr ''Alpha beta. ''), (''chunk_index'', JInt 0)],
            JObj [(''text'', JStr ''Gamma delta.''), (''chunk_index'', JInt 1)]]) 3 2)
       = Inl (ValueError ''Expecting value'')
   \<and> fst (process_lesson cfg0 chunker0 (\<lambda>i. JsonRaises (ValueError ''Expecting value'')) lesson0)
       = Inr ()
   \<and> last (snd (process_lesson cfg0 chunker0 (\<lambda>i. JsonRaises (ValueError ''Expecting value''))
        lesson0))
       = Log ERROR (Final_failure 42 ''Expecting value'')"
proof -
  have h1: "chunk_stage (\<lambda>t. Inl (ValueError ''bad text'')) (strip (lesson_content lesson0))
     = Inl (ValueError ''bad text'')"
    by (simp add: chunk_stage_def)
  have u: "[0..<3] = [0, Suc 0, 2]" by (simp add: upt_rec)
  have h2: "fst (send_to_laravel_with_retry cfg0 (\<lambda>i. JsonRaises (ValueError ''Expecting value''))
        (build_payload lesson0 (strip (lesson_content lesson0))
           [JObj [(''text'', JStr ''Alpha beta. ''), (''chunk_index'', JInt 0)],
            JObj [(''text'', JStr ''Gamma delta.''), (''chunk_index'', JInt 1)]]) 3 2)
       = Inl (ValueError ''Expecting value'')"
    by (simp add: send_to_laravel_with_retry_def u try_post_def)
  show ?thesis
    using process_lesson_never_raises [of cfg0 "\<lambda>t. Inl (ValueError ''bad text'')" target2 lesson0
        "ValueError ''bad text''" "[]"]
      process_lesson_never_raises [of cfg0 chunker0 "\<lambda>i. JsonRaises (ValueError ''Expecting value'')"
        lesson0 "ValueError ''Expecting value''"
        "[JObj [(''text'', JStr ''Alpha beta. ''), (''chunk_index'', JInt 0)],
          JObj [(''text'', JStr ''Gamma delta.''), (''chunk_index'', JInt 1)]]"]
      h1 h2 chunk0
    by (simp add: lesson0_def prod_eq_iff)
qed

text \<open>
  C9. A request to POST /chunk with the correct key and a type among \<^verbatim>\<open>created\<close>,
  \<^verbatim>\<open>updated\<close>, \<^verbatim>\<open>deleted\<close> is acknowledged with a success response whose body is a JSON
  object with the single field \<^verbatim>\<open>message\<close>, a string. The handler only appends the task
  \<^verbatim>\<open>process_lesson\<close> to the task list: the response depends on neither chunking nor delivery,
  which have not run when it is produced.
\<close>

theorem valid_request_acknowledged:
  assumes "x_internal_api_key req = Some key" and "API_KEY cfg = Some key"
    and "type (lesson req) \<in> {''created'', ''updated'', ''deleted''}"
  shows "post_chunk cfg req
           = (\<lparr>status = 200,
               body = JObj [(''message'',
                 JStr ''Chunking request accepted and processing in background.'')]\<rparr>,
              [Process_lesson (lesson req)])
       \<and> chunk_lesson (lesson req) tasks
           = (Inr [(''message'', JStr ''Chunking request accepted and processing in background.'')],
              tasks @ [Process_lesson (lesson req)])"
  using assms
  by (auto simp: post_chunk_def verify_api_key_def chunk_lesson_def)

theorem valid_request_acknowledged_witness:
  "API_KEY cfg0 = Some ''s3cret''
   \<and> type lesson0 \<in> {''created'', ''updated'', ''deleted''}
   \<and> post_chunk cfg0 \<lparr>x_internal_api_key = Some ''s3cret'', lesson = lesson0\<rparr>
       = (\<lparr>status = 200,
           body = JObj [(''message'',
             JStr ''Chunking request accepted and processing in background.'')]\<rparr>,
          [Process_lesson lesson0])"
proof -
  have h1: "x_internal_api_key \<lparr>x_internal_api_key = Some ''s3cret'', lesson = lesson0\<rparr>
      = Some ''s3cret''" by simp
  have h2: "API_KEY cfg0 = Some ''s3cret''" by (simp add: cfg0_def)
  have h3: "type (lesson \<lparr>x_internal_api_key = Some ''s3cret'', lesson = lesson0\<rparr>)
      \<in> {''created'', ''updated'', ''deleted''}" by (simp add: lesson0_def)
  show ?thesis
    using valid_request_acknowledged [OF h1 h2 h3, of "[]"] h2 h3 by simp
qed

text \<open>
  C10. When the secret is absent from the environment, \<^verbatim>\<open>verify_api_key\<close> rejects every
  header string with 401, since no string equals \<^verbatim>\<open>None\<close>; no request to POST /chunk is
  accepted and none schedules a background task.
\<close>

theorem absent_secret_rejects_every_key:
  assumes "API_KEY cfg = None"
  shows "verify_api_key cfg key = Inl (HTTPException 401 ''Unauthorized'')
       \<and> (x_internal_api_key req = Some key \<longrightarrow>
            post_chunk cfg req
              = (\<lparr>status = 401, body = JObj [(''detail'', JStr ''Unauthorized'')]\<rparr>, []))
       \<and> status (fst (post_chunk cfg req)) \<noteq> 200
       \<and> snd (post_chunk cfg req) = []"
  using assms
  by (simp add: post_chunk_def verify_api_key_def error_response_def split: option.splits)

theorem absent_secret_rejects_every_key_witness:
  "API_KEY (cfg0\<lparr>API_KEY := None\<rparr>) = None
   \<and> verify_api_key (cfg0\<lparr>API_KEY := None\<rparr>) [] = Inl (HTTPException 401 ''Unauthorized'')
   \<and> post_chunk (cfg0\<lparr>API_KEY := None\<rparr>) \<lparr>x_internal_api_key = Some [], lesson = lesson0\<rparr>
       = (\<lparr>status = 401, body = JObj [(''detail'', JStr ''Unauthorized'')]\<rparr>, [])"
proof -
  have h: "API_KEY (cfg0\<lparr>API_KEY := None\<rparr>) = None" by simp
  show ?thesis
    using absent_secret_rejects_every_key [OF h, of "[]"
        "\<lparr>x_internal_api_key = Some [], lesson = lesson0\<rparr>"] h
    by simp
qed

end
